theory Spec2Isabelle
  imports Main
begin

section \<open>Exceptions\<close>

text \<open>
  The exceptions of \<^verbatim>\<open>twitter/thermos/config/loader.py\<close>. \<open>InvalidTask\<close> is the class
  nested in \<open>ThermosTaskWrapper\<close>; \<open>AssertionError\<close> is what a failing \<^verbatim>\<open>assert\<close>
  raises, with the message of the statement (empty when it has none). The other
  constructors are the exceptions of the collaborators (\<^verbatim>\<open>open\<close>, \<^verbatim>\<open>json\<close>, the schema
  constructor, the evaluated script). Every constructor stands for a subclass of
  Python's \<^verbatim>\<open>Exception\<close>. A computation that may raise has the type \<open>exn + 'a\<close>.
\<close>

datatype exn =
    InvalidTask string
  | AssertionError string
  | IOError string
  | OSError string
  | ValueError string
  | TypeError string
  | ScriptError string

section \<open>Process names\<close>

text \<open>
  \<^verbatim>\<open>VALID_PROCESS_NAME_RE = re.compile(r'^[^/]+$')\<close>. The fragment of Python's regular
  expressions that the pattern uses: \<^verbatim>\<open>^\<close>, \<^verbatim>\<open>$\<close>, a negated character class under
  \<^verbatim>\<open>+\<close>, and concatenation. \<open>ends r s i\<close> lists the positions at which a match of \<open>r\<close>
  that starts at position \<open>i\<close> of \<open>s\<close> can end. Without the MULTILINE flag \<^verbatim>\<open>^\<close>
  matches at position 0 only, and \<^verbatim>\<open>$\<close> matches at the end of the string and just
  before a newline that is the last character. A negated class matches every
  character that is not listed, the newline included.
\<close>

datatype regex =
    Bol
  | Eol
  | OneOrMoreNot "char list"
  | Seq regex regex

fun ends :: "regex \<Rightarrow> string \<Rightarrow> nat \<Rightarrow> nat list" where
  "ends Bol s i = (if i = 0 then [i] else [])"
| "ends Eol s i =
     (if i = length s \<or> (Suc i = length s \<and> s ! i = CHR 0x0A) then [i] else [])"
| "ends (OneOrMoreNot cs) s i =
     filter (\<lambda>j. list_all (\<lambda>c. c \<notin> set cs) (take (j - i) (drop i s)))
       [Suc i ..< Suc (length s)]"
| "ends (Seq r1 r2) s i = concat (map (ends r2 s) (ends r1 s i))"

text \<open>\<^verbatim>\<open>pattern.match(s)\<close>: a match that starts at the beginning of \<open>s\<close>; the result is
  used for its truth value only.\<close>

definition re_match :: "regex \<Rightarrow> string \<Rightarrow> bool" where
  "re_match r s = (ends r s 0 \<noteq> [])"

definition VALID_PROCESS_NAME_RE :: regex where
  "VALID_PROCESS_NAME_RE = Seq Bol (Seq (OneOrMoreNot ''/'') Eol)"

text \<open>
  \<^verbatim>\<open>assert VALID_PROCESS_NAME_RE.match(name), ('Invalid process name: %s' % name)\<close>
\<close>

definition assert_valid_process_name :: "string \<Rightarrow> exn + unit" where
  "assert_valid_process_name name =
     (if re_match VALID_PROCESS_NAME_RE name then Inr ()
      else Inl (AssertionError (''Invalid process name: '' @ name)))"

section \<open>The collaborators\<close>

text \<open>
  \<^verbatim>\<open>loader.py\<close> works on objects of the templating library (\<^verbatim>\<open>pystachio\<close>) and of the
  task schema (\<^verbatim>\<open>twitter.thermos.config.schema\<close>); neither is among the sources. The
  functions below take the operations they call as a parameter \<open>L\<close>, a record with
  one field per operation, named as in the calls. The types of tasks, processes,
  references, bindings and JSON-representable values are left open. The operations
  are functions of their arguments. Two of them may raise: \<^verbatim>\<open>interpolate\<close>, of a task
  or of a process, which returns the interpolated object with the list of the
  references it could not resolve, and \<open>Task\<close>, the schema constructor that
  \<open>from_file\<close> calls inside its \<^verbatim>\<open>try\<close>.
\<close>

record typecheck =
  ok :: bool
  message :: string

record ('task, 'process, 'ref, 'binding, 'json) pystachio =
  bind :: "'task \<Rightarrow> 'binding list \<Rightarrow> 'task"
  check :: "'task \<Rightarrow> typecheck"
  interpolate :: "'task \<Rightarrow> exn + 'task \<times> 'ref list"
  has_processes :: "'task \<Rightarrow> bool"
  processes :: "'task \<Rightarrow> 'process list"
  get :: "'task \<Rightarrow> 'json"
  Task :: "'json \<Rightarrow> exn + 'task"
  process_interpolate :: "'process \<Rightarrow> exn + 'process \<times> 'ref list"
  from_address :: "string \<Rightarrow> 'ref"
  scoped_to :: "'ref \<Rightarrow> 'ref \<Rightarrow> 'ref option"
  is_index :: "'ref \<Rightarrow> bool"
  action_value :: "'ref \<Rightarrow> string"

text \<open>
  \<open>scoped_to L a b\<close> is \<^verbatim>\<open>a.scoped_to(b)\<close>, which returns \<^verbatim>\<open>None\<close> or a reference;
  \<open>action_value L r\<close> is \<^verbatim>\<open>r.action().value\<close>; \<open>process_interpolate\<close> is
  \<^verbatim>\<open>interpolate\<close> of a process.

  The \<^verbatim>\<open>json\<close> module: \<^verbatim>\<open>json.dumps\<close>/\<^verbatim>\<open>json.dump\<close> produce the text of a value,
  \<^verbatim>\<open>json.load\<close> parses a text or raises. The type of texts is left open as well.
\<close>

record ('json, 'text) json_module =
  dumps :: "'json \<Rightarrow> 'text"
  loads :: "'text \<Rightarrow> exn + 'json"

text \<open>
  \<^verbatim>\<open>safe_open\<close> of \<^verbatim>\<open>twitter.common.dirutil\<close> first creates the directory part of the
  path and then opens the file; it is not among the sources either. What the two
  \<^verbatim>\<open>with safe_open(...)\<close> blocks do is the parameter \<open>D\<close>: \<open>safe_open_read D fs filename\<close>
  is the text that \<^verbatim>\<open>with safe_open(filename) as fp\<close> reads in the file system \<open>fs\<close>, or
  the exception of \<^verbatim>\<open>safe_open\<close> or of the read; \<open>safe_open_write D fs filename text\<close>
  is the file system after \<^verbatim>\<open>with safe_open(filename, 'w') as fp\<close> has written
  \<open>text\<close>, or the exception. The type of file systems is left open.
\<close>

record ('fs, 'text) dirutil =
  safe_open_read :: "'fs \<Rightarrow> string \<Rightarrow> exn + 'text"
  safe_open_write :: "'fs \<Rightarrow> string \<Rightarrow> 'text \<Rightarrow> exn + 'fs"

section \<open>ThermosProcessWrapper\<close>

record 'process ThermosProcessWrapper =
  process :: 'process

text \<open>
  \<^verbatim>\<open>ThermosProcessWrapper.ports\<close>. The loop over \<^verbatim>\<open>uninterp\<close>, with the list \<^verbatim>\<open>ports\<close> as
  accumulator; the \<^verbatim>\<open>assert\<close> has no message.
\<close>

fun ports_loop ::
  "('task, 'process, 'ref, 'binding, 'json) pystachio \<Rightarrow> 'ref \<Rightarrow> 'ref list \<Rightarrow>
     string list \<Rightarrow> exn + string list" where
  "ports_loop L port_scope [] ports = Inr ports"
| "ports_loop L port_scope (ref # uninterp) ports =
     (case scoped_to L port_scope ref of
        None \<Rightarrow> ports_loop L port_scope uninterp ports
      | Some subscope \<Rightarrow>
          if is_index L subscope
          then ports_loop L port_scope uninterp (ports @ [action_value L subscope])
          else Inl (AssertionError []))"

definition ThermosProcessWrapper_ports ::
  "('task, 'process, 'ref, 'binding, 'json) pystachio \<Rightarrow> 'process ThermosProcessWrapper \<Rightarrow>
     exn + string list" where
  "ThermosProcessWrapper_ports L self =
     (let port_scope = from_address L ''thermos.ports''
      in case process_interpolate L (process self) of
           Inl e \<Rightarrow> Inl e
         | Inr (_, uninterp) \<Rightarrow> ports_loop L port_scope uninterp [])"

section \<open>ThermosTaskWrapper\<close>

record 'task ThermosTaskWrapper =
  task :: 'task

text \<open>
  The keyword arguments of the constructor, which \<open>from_file\<close>, \<open>load\<close> and
  \<open>load_json\<close> pass on as \<^verbatim>\<open>**kw\<close>: \<^verbatim>\<open>bindings=None, strict=True\<close>.
\<close>

record 'binding kw =
  bindings :: "'binding list option"
  strict :: bool

definition default_kw :: "'binding kw" where
  "default_kw = \<lparr>bindings = None, strict = True\<rparr>"

text \<open>
  \<^verbatim>\<open>ThermosTaskWrapper.__init__\<close>. \<^verbatim>\<open>if bindings:\<close> is false for \<^verbatim>\<open>None\<close> and for an
  empty sequence; \<^verbatim>\<open>task.bind(*bindings)\<close> passes all bindings, in their order, to one
  call of \<^verbatim>\<open>bind\<close>.
\<close>

definition ThermosTaskWrapper_init ::
  "('task, 'process, 'ref, 'binding, 'json) pystachio \<Rightarrow> 'task \<Rightarrow> 'binding list option \<Rightarrow>
     bool \<Rightarrow> exn + 'task ThermosTaskWrapper" where
  "ThermosTaskWrapper_init L task0 bindings0 strict0 =
     (let task1 = (case bindings0 of
                     Some (b # bs) \<Rightarrow> bind L task0 (b # bs)
                   | _ \<Rightarrow> task0)
      in if \<not> ok (check L task1) \<and> strict0
         then Inl (InvalidTask (message (check L task1)))
         else Inr \<lparr>task = task1\<rparr>)"

text \<open>
  \<^verbatim>\<open>ThermosTaskWrapper.ports\<close>. The loop over \<^verbatim>\<open>ti.processes()\<close>, with the set \<^verbatim>\<open>ports\<close>
  as accumulator; an exception of a process's scanner leaves the loop.
\<close>

fun update_ports ::
  "('task, 'process, 'ref, 'binding, 'json) pystachio \<Rightarrow> 'process list \<Rightarrow> string set \<Rightarrow>
     exn + string set" where
  "update_ports L [] ports = Inr ports"
| "update_ports L (p # ps) ports =
     (case ThermosProcessWrapper_ports L \<lparr>process = p\<rparr> of
        Inl e \<Rightarrow> Inl e
      | Inr found \<Rightarrow> update_ports L ps (ports \<union> set found))"

definition ThermosTaskWrapper_ports ::
  "('task, 'process, 'ref, 'binding, 'json) pystachio \<Rightarrow> 'task ThermosTaskWrapper \<Rightarrow>
     exn + string set" where
  "ThermosTaskWrapper_ports L self =
     (case interpolate L (task self) of
        Inl e \<Rightarrow> Inl e
      | Inr (ti, _) \<Rightarrow>
          if has_processes L ti then update_ports L (processes L ti) {} else Inr {})"

definition to_json ::
  "('task, 'process, 'ref, 'binding, 'json) pystachio \<Rightarrow> ('json, 'text) json_module \<Rightarrow>
     'task ThermosTaskWrapper \<Rightarrow> 'text" where
  "to_json L J self = dumps J (get L (task self))"

text \<open>\<^verbatim>\<open>to_file\<close> returns the file system after the write. \<open>from_file\<close> returns what
  the call returns; the directory that its \<^verbatim>\<open>safe_open\<close> may create is not recorded.\<close>

definition to_file ::
  "('task, 'process, 'ref, 'binding, 'json) pystachio \<Rightarrow> ('json, 'text) json_module \<Rightarrow>
     ('fs, 'text) dirutil \<Rightarrow> 'task ThermosTaskWrapper \<Rightarrow> string \<Rightarrow> 'fs \<Rightarrow> exn + 'fs" where
  "to_file L J D self filename fs =
     (case interpolate L (task self) of
        Inl e \<Rightarrow> Inl e
      | Inr (ti, _) \<Rightarrow> safe_open_write D fs filename (dumps J (get L ti)))"

text \<open>
  \<^verbatim>\<open>from_file\<close>: \<open>from_file_try\<close> is the body of the \<^verbatim>\<open>try\<close>, \<open>from_file\<close> adds the
  \<^verbatim>\<open>except Exception\<close> clause, which returns \<^verbatim>\<open>None\<close>.
\<close>

definition from_file_try ::
  "('task, 'process, 'ref, 'binding, 'json) pystachio \<Rightarrow> ('json, 'text) json_module \<Rightarrow>
     ('fs, 'text) dirutil \<Rightarrow> 'fs \<Rightarrow> string \<Rightarrow> 'binding kw \<Rightarrow>
     exn + 'task ThermosTaskWrapper" where
  "from_file_try L J D fs filename kw0 =
     (case safe_open_read D fs filename of
        Inl e \<Rightarrow> Inl e
      | Inr text \<Rightarrow>
          (case loads J text of
             Inl e \<Rightarrow> Inl e
           | Inr js \<Rightarrow>
               (case Task L js of
                  Inl e \<Rightarrow> Inl e
                | Inr t \<Rightarrow> ThermosTaskWrapper_init L t (bindings kw0) (strict kw0))))"

definition from_file ::
  "('task, 'process, 'ref, 'binding, 'json) pystachio \<Rightarrow> ('json, 'text) json_module \<Rightarrow>
     ('fs, 'text) dirutil \<Rightarrow> 'fs \<Rightarrow> string \<Rightarrow> 'binding kw \<Rightarrow>
     exn + 'task ThermosTaskWrapper option" where
  "from_file L J D fs filename kw0 =
     (case from_file_try L J D fs filename kw0 of
        Inl e \<Rightarrow> Inr None
      | Inr w \<Rightarrow> Inr (Some w))"

section \<open>ThermosConfigLoader\<close>

record 'task ThermosConfigLoader =
  exported_tasks :: "'task ThermosTaskWrapper option list"

text \<open>
  The elements of \<^verbatim>\<open>_exported_tasks\<close> are whatever \<open>add_task\<close> is given: a wrapper, or
  the \<^verbatim>\<open>None\<close> that \<open>from_file\<close> returns.
\<close>

definition ThermosConfigLoader_init :: "'task ThermosConfigLoader" where
  "ThermosConfigLoader_init = \<lparr>exported_tasks = []\<rparr>"

definition add_task ::
  "'task ThermosConfigLoader \<Rightarrow> 'task ThermosTaskWrapper option \<Rightarrow> 'task ThermosConfigLoader" where
  "add_task self t = self\<lparr>exported_tasks := exported_tasks self @ [t]\<rparr>"

definition tasks :: "'task ThermosConfigLoader \<Rightarrow> 'task ThermosTaskWrapper option list" where
  "tasks self = exported_tasks self"

definition load_json ::
  "('task, 'process, 'ref, 'binding, 'json) pystachio \<Rightarrow> ('json, 'text) json_module \<Rightarrow>
     ('fs, 'text) dirutil \<Rightarrow> 'fs \<Rightarrow> string \<Rightarrow> 'binding kw \<Rightarrow>
     exn + 'task ThermosConfigLoader" where
  "load_json L J D fs filename kw0 =
     (let tc = ThermosConfigLoader_init
      in case from_file L J D fs filename kw0 of
           Inl e \<Rightarrow> Inl e
         | Inr t \<Rightarrow> Inr (add_task tc t))"

subsection \<open>Dictionaries in a store\<close>

text \<open>
  \<^verbatim>\<open>ThermosConfigLoader.SCHEMA\<close> is one dictionary object, shared by all calls of
  \<open>load\<close>, and \<open>load\<close> hands a dictionary to the evaluated script, which writes to
  it. To state which object a write reaches, dictionaries live in a store: a list of
  dictionaries, addressed by position. A dictionary maps a name to a value of the
  vocabulary or to the function \<^verbatim>\<open>export\<close> that \<open>load\<close> defines.
\<close>

datatype 'v pyvalue = Vocabulary 'v | ExportFunction

type_synonym 'v namespace = "string \<rightharpoonup> 'v pyvalue"

type_synonym 'v store = "'v namespace list"

text \<open>The address of the class attribute \<^verbatim>\<open>SCHEMA\<close>.\<close>

definition SCHEMA :: nat where
  "SCHEMA = 0"

text \<open>\<^verbatim>\<open>copy.copy(d)\<close> of a dictionary: a new object with the same items.\<close>

definition copy_copy :: "'v store \<Rightarrow> nat \<Rightarrow> nat \<times> 'v store" where
  "copy_copy h a = (length h, h @ [h ! a])"

text \<open>\<^verbatim>\<open>d[k] = v\<close> on the dictionary at address \<open>a\<close>.\<close>

definition setitem :: "'v store \<Rightarrow> nat \<Rightarrow> string \<Rightarrow> 'v pyvalue \<Rightarrow> 'v store" where
  "setitem h a k v = h[a := (h ! a)(k \<mapsto> v)]"

text \<open>
  \<^verbatim>\<open>deposit_schema(environment)\<close> evaluates \<^verbatim>\<open>SCHEMA_PREAMBLE\<close>, three star-imports, in
  the dictionary \<open>environment\<close>: it binds the names that the imported modules export.
  These names and their values are the parameter \<open>preamble\<close>.
\<close>

definition deposit_schema :: "(string \<rightharpoonup> 'v) \<Rightarrow> 'v store \<Rightarrow> nat \<Rightarrow> 'v store" where
  "deposit_schema preamble h environment =
     h[environment := (h ! environment) ++ (map_option Vocabulary \<circ> preamble)]"

text \<open>The store when the class has been defined: \<^verbatim>\<open>SCHEMA = {}\<close>, then
  \<^verbatim>\<open>deposit_schema(SCHEMA)\<close>.\<close>

definition class_store :: "(string \<rightharpoonup> 'v) \<Rightarrow> 'v store" where
  "class_store preamble = deposit_schema preamble [Map.empty] SCHEMA"

subsection \<open>Evaluating a configuration script\<close>

text \<open>
  A configuration file is Python source. What its evaluation does to the loader is a
  sequence of steps: it calls the function that \<open>load\<close> binds to \<^verbatim>\<open>export\<close> with
  a task, it binds a global name (a write to the dictionary it is evaluated in), or
  it raises. An exception, of the script itself or of \<^verbatim>\<open>export\<close>, ends the
  evaluation: the loader catches nothing, and the scripts modelled here do not catch
  the exceptions of \<^verbatim>\<open>export\<close> either. Which steps a script takes may depend on the
  names it finds in its dictionary, so a compiled script is a function from that
  dictionary to its steps.
\<close>

datatype ('task, 'v) stmt =
    Export 'task
  | Assign string "'v pyvalue"
  | Raise exn

type_synonym ('task, 'v) script = "'v namespace \<Rightarrow> ('task, 'v) stmt list"

text \<open>The closure \<^verbatim>\<open>export\<close> of \<open>load\<close>, which refers to \<^verbatim>\<open>tc\<close> and \<^verbatim>\<open>kw\<close>.\<close>

definition export ::
  "('task, 'process, 'ref, 'binding, 'json) pystachio \<Rightarrow> 'binding kw \<Rightarrow>
     'task ThermosConfigLoader \<Rightarrow> 'task \<Rightarrow> exn + 'task ThermosConfigLoader" where
  "export L kw0 tc t =
     (case ThermosTaskWrapper_init L t (bindings kw0) (strict kw0) of
        Inl e \<Rightarrow> Inl e
      | Inr w \<Rightarrow> Inr (add_task tc (Some w)))"

text \<open>
  \<^verbatim>\<open>exec_function(code, environment)\<close>: the steps of the script, on the loader \<^verbatim>\<open>tc\<close>
  and the store. The result is the exception that ended the evaluation, if any, with
  the loader and the store as the evaluation left them.
\<close>

fun exec_function ::
  "('task, 'process, 'ref, 'binding, 'json) pystachio \<Rightarrow> 'binding kw \<Rightarrow>
     ('task, 'v) stmt list \<Rightarrow> nat \<Rightarrow> 'task ThermosConfigLoader \<times> 'v store \<Rightarrow>
     exn option \<times> 'task ThermosConfigLoader \<times> 'v store" where
  "exec_function L kw0 [] environment (tc, h) = (None, tc, h)"
| "exec_function L kw0 (Export t # code) environment (tc, h) =
     (case export L kw0 tc t of
        Inl e \<Rightarrow> (Some e, tc, h)
      | Inr tc' \<Rightarrow> exec_function L kw0 code environment (tc', h))"
| "exec_function L kw0 (Assign k v # code) environment (tc, h) =
     exec_function L kw0 code environment (tc, setitem h environment k v)"
| "exec_function L kw0 (Raise e # code) environment (tc, h) = (Some e, tc, h)"

text \<open>
  \<^verbatim>\<open>ThermosConfigLoader.load\<close>. \<open>compile_file filename\<close> stands for \<^verbatim>\<open>open(filename)\<close>,
  \<^verbatim>\<open>fp.read()\<close> and \<^verbatim>\<open>compile(...)\<close>: the script, or the exception of a file that cannot
  be read or parsed. The result is what the call returns or raises, and the store
  it leaves.
\<close>

definition load ::
  "('task, 'process, 'ref, 'binding, 'json) pystachio \<Rightarrow> (string \<Rightarrow> exn + ('task, 'v) script) \<Rightarrow>
     'v store \<Rightarrow> string \<Rightarrow> 'binding kw \<Rightarrow> (exn + 'task ThermosConfigLoader) \<times> 'v store" where
  "load L compile_file h filename kw0 =
     (let tc = ThermosConfigLoader_init;
          (schema_copy, h1) = copy_copy h SCHEMA;
          h2 = setitem h1 schema_copy ''export'' ExportFunction
      in case compile_file filename of
           Inl e \<Rightarrow> (Inl e, h2)
         | Inr code \<Rightarrow>
             (case exec_function L kw0 (code (h2 ! schema_copy)) schema_copy (tc, h2) of
                (Some e, tc', h') \<Rightarrow> (Inl e, h')
              | (None, tc', h') \<Rightarrow> (Inr tc', h')))"

text \<open>The tasks of the \<open>Export\<close> steps of a sequence, in their order: the tasks
  passed to \<^verbatim>\<open>export\<close> when the evaluation takes every step.\<close>

fun exported :: "('task, 'v) stmt list \<Rightarrow> 'task list" where
  "exported [] = []"
| "exported (Export t # code) = t # exported code"
| "exported (_ # code) = exported code"

section \<open>A small instance of the collaborators\<close>

text \<open>
  Modelled from the spec: the templating library, the task schema, the JSON codec
  and \<^verbatim>\<open>safe_open\<close>, which are not among the sources. This instance of the parameters
  \<open>L\<close>, \<open>J\<close> and \<open>D\<close> serves to evaluate the functions above on concrete tasks and
  files. The command line of a process is a sequence of pieces, text or
  placeholders. A binding maps a reference to a string, and the binding bound last
  wins. Interpolation replaces the placeholders that a binding resolves and returns
  the others as unresolved references. Validation requires a task name.

  Where the spec leaves the form of a reference open, the instance takes the form
  the templating library gives it: a reference is a sequence of components, each a
  dereference \<^verbatim>\<open>.name\<close> or an index \<^verbatim>\<open>[name]\<close>, so \<^verbatim>\<open>thermos.ports[http]\<close> is two
  dereferences and an index, and \<^verbatim>\<open>thermos.ports.health.sub\<close> is four dereferences.
\<close>

datatype ex_component = Dereference string | Index string

type_synonym ex_ref = "ex_component list"

datatype ex_piece = Lit string | Placeholder ex_ref

record ex_process =
  pname :: string
  cmdline :: "ex_piece list"

record ex_task =
  tname :: string
  tprocesses :: "ex_process list option"
  scopes :: "(ex_ref \<times> string) list"

text \<open>Modelled from the spec: a JSON document is the raw value of a task, or some
  other document; a text is the JSON text of a document, or not JSON at all.\<close>

datatype ex_json = TaskDocument string "ex_process list option" | OtherDocument

datatype ex_text = JsonText ex_json | Garbage

text \<open>Modelled from the spec: the reference of a dotted address such as
  \<^verbatim>\<open>thermos.ports\<close>, one dereference for each name. (The scanner parses no other
  address; the placeholders of the example processes are given as references.)\<close>

fun split_dots :: "string \<Rightarrow> string list" where
  "split_dots [] = [[]]"
| "split_dots (c # cs) =
     (if c = CHR ''.'' then [] # split_dots cs
      else (case split_dots cs of
              [] \<Rightarrow> [[c]]
            | n # ns \<Rightarrow> (c # n) # ns))"

definition ex_from_address :: "string \<Rightarrow> ex_ref" where
  "ex_from_address address = map Dereference (split_dots address)"

text \<open>Modelled from the spec: \<^verbatim>\<open>scoped_to\<close> gives the sub-reference of a reference
  relative to a proper prefix of its components, and none when the prefix is not
  one.\<close>

definition ex_scoped_to :: "ex_ref \<Rightarrow> ex_ref \<Rightarrow> ex_ref option" where
  "ex_scoped_to prefix r =
     (if length prefix < length r \<and> take (length prefix) r = prefix
      then Some (drop (length prefix) r)
      else None)"

text \<open>Modelled from the spec: a reference is an index access when its first
  component, its action, is an index; the value of the action is the name of that
  component. What follows the first component plays no part.\<close>

definition ex_is_index :: "ex_ref \<Rightarrow> bool" where
  "ex_is_index r = (case r of Index n # _ \<Rightarrow> True | _ \<Rightarrow> False)"

definition ex_action_value :: "ex_ref \<Rightarrow> string" where
  "ex_action_value r = (case r of Index n # _ \<Rightarrow> n | Dereference n # _ \<Rightarrow> n | [] \<Rightarrow> [])"

text \<open>Modelled from the spec: binding and interpolation.\<close>

definition ex_bind :: "ex_task \<Rightarrow> (ex_ref \<times> string) list \<Rightarrow> ex_task" where
  "ex_bind t bs = t\<lparr>scopes := rev bs @ scopes t\<rparr>"

definition ex_resolve :: "(ex_ref \<times> string) list \<Rightarrow> ex_piece \<Rightarrow> ex_piece" where
  "ex_resolve env p =
     (case p of
        Lit s \<Rightarrow> Lit s
      | Placeholder r \<Rightarrow> (case map_of env r of Some v \<Rightarrow> Lit v | None \<Rightarrow> Placeholder r))"

fun ex_unresolved :: "ex_piece list \<Rightarrow> ex_ref list" where
  "ex_unresolved [] = []"
| "ex_unresolved (Lit s # ps) = ex_unresolved ps"
| "ex_unresolved (Placeholder r # ps) = r # ex_unresolved ps"

definition ex_process_interpolate :: "ex_process \<Rightarrow> exn + ex_process \<times> ex_ref list" where
  "ex_process_interpolate p = Inr (p, ex_unresolved (cmdline p))"

definition ex_interpolate :: "ex_task \<Rightarrow> exn + ex_task \<times> ex_ref list" where
  "ex_interpolate t =
     (let ps = map_option (map (\<lambda>p. p\<lparr>cmdline := map (ex_resolve (scopes t)) (cmdline p)\<rparr>))
                 (tprocesses t)
      in Inr (t\<lparr>tprocesses := ps\<rparr>,
              concat (map (\<lambda>p. ex_unresolved (cmdline p))
                        (case ps of None \<Rightarrow> [] | Some qs \<Rightarrow> qs))))"

text \<open>Modelled from the spec: schema validation, the raw value of a task and the
  schema constructor.\<close>

definition ex_check :: "ex_task \<Rightarrow> typecheck" where
  "ex_check t =
     (if tname t = [] then \<lparr>ok = False, message = ''Task[name] is required''\<rparr>
      else \<lparr>ok = True, message = []\<rparr>)"

definition ex_get :: "ex_task \<Rightarrow> ex_json" where
  "ex_get t = TaskDocument (tname t) (tprocesses t)"

definition ex_Task :: "ex_json \<Rightarrow> exn + ex_task" where
  "ex_Task js =
     (case js of
        TaskDocument n ps \<Rightarrow> Inr \<lparr>tname = n, tprocesses = ps, scopes = []\<rparr>
      | OtherDocument \<Rightarrow> Inl (TypeError ''not a task''))"

definition ex_pystachio ::
  "(ex_task, ex_process, ex_ref, ex_ref \<times> string, ex_json) pystachio" where
  "ex_pystachio =
     \<lparr>bind = ex_bind,
      check = ex_check,
      interpolate = ex_interpolate,
      has_processes = (\<lambda>t. tprocesses t \<noteq> None),
      processes = (\<lambda>t. case tprocesses t of None \<Rightarrow> [] | Some ps \<Rightarrow> ps),
      get = ex_get,
      Task = ex_Task,
      process_interpolate = ex_process_interpolate,
      from_address = ex_from_address,
      scoped_to = ex_scoped_to,
      is_index = ex_is_index,
      action_value = ex_action_value\<rparr>"

definition ex_json_module :: "(ex_json, ex_text) json_module" where
  "ex_json_module =
     \<lparr>dumps = JsonText,
      loads = (\<lambda>text. case text of
                 JsonText js \<Rightarrow> Inr js
               | Garbage \<Rightarrow> Inl (ValueError ''No JSON object could be decoded''))\<rparr>"

subsection \<open>Example tasks\<close>

text \<open>
  The references \<^verbatim>\<open>thermos.ports[name]\<close> and \<^verbatim>\<open>jvm.version\<close>. Task \<open>A\<close> has two
  processes, which refer to the ports \<open>http\<close>, \<open>admin\<close> and \<open>http\<close> again, and to a
  binding \<open>jvm.version\<close>; task \<open>B\<close> refers to that binding and to no port; the last
  task has no name, which validation rejects, and declares no processes. The
  process \<open>health\<close> refers to \<^verbatim>\<open>thermos.ports.health.sub\<close>, the process \<open>nested\<close> to
  \<^verbatim>\<open>thermos.ports[health].sub\<close>.
\<close>

definition port :: "string \<Rightarrow> ex_ref" where
  "port name = [Dereference ''thermos'', Dereference ''ports'', Index name]"

definition jvm_version :: ex_ref where
  "jvm_version = [Dereference ''jvm'', Dereference ''version'']"

definition web_process :: ex_process where
  "web_process =
     \<lparr>pname = ''web'',
      cmdline = [Lit ''server --port='', Placeholder (port ''http''),
                 Lit '' --jvm='', Placeholder jvm_version]\<rparr>"

definition admin_process :: ex_process where
  "admin_process =
     \<lparr>pname = ''admin'',
      cmdline = [Lit ''admin --port='', Placeholder (port ''admin''),
                 Lit '' --peer='', Placeholder (port ''http'')]\<rparr>"

definition health_process :: ex_process where
  "health_process =
     \<lparr>pname = ''health'',
      cmdline = [Lit ''check '',
                 Placeholder [Dereference ''thermos'', Dereference ''ports'',
                              Dereference ''health'', Dereference ''sub'']]\<rparr>"

definition nested_process :: ex_process where
  "nested_process =
     \<lparr>pname = ''nested'',
      cmdline = [Lit ''check '', Placeholder (port ''health'' @ [Dereference ''sub''])]\<rparr>"

definition echo_process :: ex_process where
  "echo_process =
     \<lparr>pname = ''echo'', cmdline = [Lit ''echo java '', Placeholder jvm_version]\<rparr>"

definition task_A :: ex_task where
  "task_A = \<lparr>tname = ''A'', tprocesses = Some [web_process, admin_process], scopes = []\<rparr>"

definition task_B :: ex_task where
  "task_B = \<lparr>tname = ''B'', tprocesses = Some [echo_process], scopes = []\<rparr>"

definition task_unnamed :: ex_task where
  "task_unnamed = \<lparr>tname = [], tprocesses = None, scopes = []\<rparr>"

definition jvm_binding :: "ex_ref \<times> string" where
  "jvm_binding = (jvm_version, ''7'')"

subsection \<open>An instance of the file system\<close>

text \<open>
  Modelled from the spec: the file system behind \<^verbatim>\<open>safe_open\<close>. A path names a
  directory, a regular file with its text, or nothing; the root and the working
  directory exist. \<open>ex_dirname\<close> is \<^verbatim>\<open>os.path.dirname\<close>: the path up to its last
  slash, without trailing slashes unless it consists of slashes.
\<close>

datatype 'text node = Directory | Regular 'text

type_synonym ex_filesystem = "string \<rightharpoonup> ex_text node"

definition ex_dirname :: "string \<Rightarrow> string" where
  "ex_dirname p =
     (let head = take (length p - length (takeWhile (\<lambda>c. c \<noteq> CHR ''/'') (rev p))) p
      in if list_all (\<lambda>c. c = CHR ''/'') head then head
         else rev (dropWhile (\<lambda>c. c = CHR ''/'') (rev head)))"

text \<open>
  Modelled from the spec: \<^verbatim>\<open>safe_mkdir(directory)\<close>, that is \<^verbatim>\<open>os.makedirs\<close> with the
  error of an existing path ignored. \<open>ex_ancestors d\<close> lists the directories on the
  way to \<open>d\<close>, the outermost first and \<open>d\<close> last. Each one that is missing is
  created; a regular file on the way is an error, a regular file at \<open>d\<close> itself
  exists and is left alone. The empty path, the directory part of a bare file name,
  cannot be created.
\<close>

definition ex_ancestors :: "string \<Rightarrow> string list" where
  "ex_ancestors d =
     map (\<lambda>i. take i d)
       (filter (\<lambda>i. (i = length d \<or> d ! i = CHR ''/'') \<and> d ! (i - 1) \<noteq> CHR ''/'')
          [1 ..< Suc (length d)])"

fun ex_makedirs :: "ex_filesystem \<Rightarrow> string list \<Rightarrow> exn + ex_filesystem" where
  "ex_makedirs fs [] = Inr fs"
| "ex_makedirs fs (a # rest) =
     (case fs a of
        None \<Rightarrow> ex_makedirs (fs(a \<mapsto> Directory)) rest
      | Some Directory \<Rightarrow> ex_makedirs fs rest
      | Some (Regular text) \<Rightarrow>
          if rest = [] then Inr fs else Inl (OSError (''Not a directory: '' @ a)))"

definition ex_safe_mkdir :: "ex_filesystem \<Rightarrow> string \<Rightarrow> exn + ex_filesystem" where
  "ex_safe_mkdir fs directory =
     (if directory = [] then Inl (OSError ''No such file or directory: '')
      else ex_makedirs fs (ex_ancestors directory))"

text \<open>
  Modelled from the spec: \<^verbatim>\<open>safe_open(filename)\<close> for reading and
  \<^verbatim>\<open>safe_open(filename, 'w')\<close> for writing. Both create the directory part first.
  Reading needs a regular file; writing needs a parent that is not a regular file
  and a path that is not a directory, and creates or replaces the file.
\<close>

definition ex_safe_open_read :: "ex_filesystem \<Rightarrow> string \<Rightarrow> exn + ex_text" where
  "ex_safe_open_read fs filename =
     (case ex_safe_mkdir fs (ex_dirname filename) of
        Inl e \<Rightarrow> Inl e
      | Inr fs1 \<Rightarrow>
          (case fs1 filename of
             Some (Regular text) \<Rightarrow> Inr text
           | _ \<Rightarrow> Inl (IOError filename)))"

definition ex_safe_open_write ::
  "ex_filesystem \<Rightarrow> string \<Rightarrow> ex_text \<Rightarrow> exn + ex_filesystem" where
  "ex_safe_open_write fs filename text =
     (case ex_safe_mkdir fs (ex_dirname filename) of
        Inl e \<Rightarrow> Inl e
      | Inr fs1 \<Rightarrow>
          (case fs1 (ex_dirname filename) of
             Some (Regular t) \<Rightarrow> Inl (IOError filename)
           | _ \<Rightarrow>
               (case fs1 filename of
                  Some Directory \<Rightarrow> Inl (IOError filename)
                | _ \<Rightarrow> Inr (fs1(filename \<mapsto> Regular text)))))"

definition ex_dirutil :: "(ex_filesystem, ex_text) dirutil" where
  "ex_dirutil = \<lparr>safe_open_read = ex_safe_open_read, safe_open_write = ex_safe_open_write\<rparr>"

text \<open>
  A file system with the directory \<^verbatim>\<open>/tmp\<close> and, in it, the JSON document of the
  task without a name, a file that is not JSON, a JSON document that is not a task,
  a directory and the JSON document of the task \<open>B\<close>; and, in the working directory,
  the first document again under a bare file name.
\<close>

definition ex_fs :: ex_filesystem where
  "ex_fs =
     [''/tmp'' \<mapsto> Directory,
      ''/tmp/unnamed.json'' \<mapsto> Regular (JsonText (TaskDocument [] None)),
      ''/tmp/garbage.json'' \<mapsto> Regular Garbage,
      ''/tmp/list.json'' \<mapsto> Regular (JsonText OtherDocument),
      ''/tmp/tasks'' \<mapsto> Directory,
      ''/tmp/B.json'' \<mapsto> Regular (JsonText (TaskDocument ''B'' (Some [echo_process]))),
      ''unnamed.json'' \<mapsto> Regular (JsonText (TaskDocument [] None))]"

text \<open>
  The vocabulary that the preamble imports, and a configuration script. The script
  needs the name \<open>Task\<close> of the vocabulary and raises a NameError without it; it
  exports the task \<open>A\<close>, rebinds the names \<open>Task\<close> and \<open>export\<close>, and exports the
  task \<open>B\<close> through the function it was given.
\<close>

definition ex_preamble :: "string \<rightharpoonup> string" where
  "ex_preamble = [''Task'' \<mapsto> ''class Task'', ''Process'' \<mapsto> ''class Process'']"

definition config_py :: "(ex_task, string) script" where
  "config_py ns =
     (if ns ''Task'' = Some (Vocabulary ''class Task'')
      then [Export task_A,
            Assign ''Task'' (Vocabulary ''shadowed''),
            Assign ''export'' (Vocabulary ''shadowed''),
            Export task_B]
      else [Raise (ScriptError ''NameError: Task'')])"

definition ex_compile_file :: "string \<Rightarrow> exn + (ex_task, string) script" where
  "ex_compile_file filename =
     (if filename = ''config.py'' then Inr config_py else Inl (IOError filename))"

section \<open>Theorems\<close>

subsection \<open>Process names\<close>

lemma set_concat_ends_Eol:
  "set (concat (map (ends Eol s) js)) =
     {j \<in> set js. j = length s \<or> (Suc j = length s \<and> s ! j = CHR 0x0A)}"
  by (induction js) auto

lemma ends_name_re_unfold:
  "ends VALID_PROCESS_NAME_RE s 0 =
     concat (map (ends Eol s)
       (filter (\<lambda>j. list_all (\<lambda>c. c \<notin> set ''/'') (take (j - 0) (drop 0 s)))
          [Suc 0 ..< Suc (length s)]))"
  unfolding VALID_PROCESS_NAME_RE_def ends.simps by simp

lemma set_ends_name_re:
  "j \<in> set (ends VALID_PROCESS_NAME_RE s 0) \<longleftrightarrow>
     0 < j \<and> j \<le> length s \<and> CHR ''/'' \<notin> set (take j s) \<and>
     (j = length s \<or> (Suc j = length s \<and> s ! j = CHR 0x0A))"
proof -
  have "list_all (\<lambda>c. c \<notin> set ''/'') (take (j - 0) (drop 0 s)) \<longleftrightarrow>
          CHR ''/'' \<notin> set (take j s)"
    by (auto simp add: list_all_iff)
  moreover have "j \<in> set [Suc 0 ..< Suc (length s)] \<longleftrightarrow> 0 < j \<and> j \<le> length s"
    unfolding set_upt by auto
  ultimately show ?thesis
    unfolding ends_name_re_unfold set_concat_ends_Eol set_filter mem_Collect_eq
    by blast
qed

lemma re_match_name_re:
  "re_match VALID_PROCESS_NAME_RE s \<longleftrightarrow> s \<noteq> [] \<and> CHR ''/'' \<notin> set s"
proof
  assume "re_match VALID_PROCESS_NAME_RE s"
  then obtain j where j: "j \<in> set (ends VALID_PROCESS_NAME_RE s 0)"
    unfolding re_match_def by (cases "ends VALID_PROCESS_NAME_RE s 0") auto
  then have bounds: "0 < j" "j \<le> length s" and free: "CHR ''/'' \<notin> set (take j s)"
    and stop: "j = length s \<or> (Suc j = length s \<and> s ! j = CHR 0x0A)"
    unfolding set_ends_name_re by auto
  from bounds have "s \<noteq> []" by auto
  moreover have "CHR ''/'' \<notin> set s"
  proof (cases "j = length s")
    case True
    with free show ?thesis by simp
  next
    case False
    with stop have last: "Suc j = length s" "s ! j = CHR 0x0A" by auto
    then have "s = take j s @ [s ! j]"
      by (metis lessI take_Suc_conv_app_nth take_all order_refl)
    then have "set s = set (take j s) \<union> {CHR 0x0A}"
      using last by (metis list.set(1) list.simps(15) set_append Un_insert_right sup_bot.right_neutral)
    with free show ?thesis by auto
  qed
  ultimately show "s \<noteq> [] \<and> CHR ''/'' \<notin> set s" ..
next
  assume ok: "s \<noteq> [] \<and> CHR ''/'' \<notin> set s"
  then have "length s \<in> set (ends VALID_PROCESS_NAME_RE s 0)"
    unfolding set_ends_name_re by (cases s) auto
  then show "re_match VALID_PROCESS_NAME_RE s"
    unfolding re_match_def by auto
qed

text \<open>
  Claim C10. \<open>assert_valid_process_name name\<close> returns exactly when \<open>name\<close> is a
  non-empty string without the character \<open>/\<close>; for the empty string and for every
  name that contains \<open>/\<close> the assertion fails, and the AssertionError carries the
  message \<open>Invalid process name: \<close> followed by the name.
\<close>

theorem assert_valid_process_name_spec:
  "assert_valid_process_name name =
     (if name \<noteq> [] \<and> CHR ''/'' \<notin> set name then Inr ()
      else Inl (AssertionError (''Invalid process name: '' @ name)))"
  by (simp add: assert_valid_process_name_def re_match_name_re)

text \<open>
  A name may end in a newline and may contain the character NUL: the pattern
  excludes \<open>/\<close> only.
\<close>

theorem assert_valid_process_name_witness:
  "assert_valid_process_name ''web_server'' = Inr ()
   \<and> assert_valid_process_name (''web'' @ [CHR 0x0A]) = Inr ()
   \<and> assert_valid_process_name [CHR 0x00] = Inr ()
   \<and> assert_valid_process_name ''web/server'' =
       Inl (AssertionError ''Invalid process name: web/server'')
   \<and> assert_valid_process_name [] = Inl (AssertionError ''Invalid process name: '')"
  by (simp add: assert_valid_process_name_spec)

subsection \<open>The instance of the collaborators\<close>

lemma ex_fields:
  "bind ex_pystachio = ex_bind"
  "check ex_pystachio = ex_check"
  "interpolate ex_pystachio = ex_interpolate"
  "has_processes ex_pystachio = (\<lambda>t. tprocesses t \<noteq> None)"
  "processes ex_pystachio = (\<lambda>t. case tprocesses t of None \<Rightarrow> [] | Some ps \<Rightarrow> ps)"
  "get ex_pystachio = ex_get"
  "Task ex_pystachio = ex_Task"
  "process_interpolate ex_pystachio = ex_process_interpolate"
  "from_address ex_pystachio = ex_from_address"
  "scoped_to ex_pystachio = ex_scoped_to"
  "is_index ex_pystachio = ex_is_index"
  "action_value ex_pystachio = ex_action_value"
  by (simp_all add: ex_pystachio_def)

lemma ex_json_fields:
  "dumps ex_json_module = JsonText"
  "loads ex_json_module (JsonText js) = Inr js"
  "loads ex_json_module Garbage = Inl (ValueError ''No JSON object could be decoded'')"
  by (simp_all add: ex_json_module_def)

lemma ex_dirutil_fields:
  "safe_open_read ex_dirutil = ex_safe_open_read"
  "safe_open_write ex_dirutil = ex_safe_open_write"
  by (simp_all add: ex_dirutil_def)

lemma ex_dirname_simps:
  "ex_dirname ''unnamed.json'' = []"
  "ex_dirname ''/tmp/unnamed.json'' = ''/tmp''"
  "ex_dirname ''/tmp/missing.json'' = ''/tmp''"
  "ex_dirname ''/tmp/garbage.json'' = ''/tmp''"
  "ex_dirname ''/tmp/list.json'' = ''/tmp''"
  "ex_dirname ''/tmp/tasks'' = ''/tmp''"
  "ex_dirname ''/tmp/B.json'' = ''/tmp''"
  "ex_dirname ''/tmp/thermos/B.json'' = ''/tmp/thermos''"
  by (simp_all add: ex_dirname_def)

lemma ex_ancestors_simps:
  "ex_ancestors ''/tmp'' = [''/tmp'']"
  "ex_ancestors ''/tmp/thermos'' = [''/tmp'', ''/tmp/thermos'']"
  by code_simp+

lemma ex_safe_mkdir_tmp: "ex_safe_mkdir ex_fs ''/tmp'' = Inr ex_fs"
  by (simp add: ex_safe_mkdir_def ex_ancestors_simps ex_fs_def)

lemma ex_reads:
  "ex_safe_open_read ex_fs ''unnamed.json'' = Inl (OSError ''No such file or directory: '')"
  "ex_safe_open_read ex_fs ''/tmp/missing.json'' = Inl (IOError ''/tmp/missing.json'')"
  "ex_safe_open_read ex_fs ''/tmp/tasks'' = Inl (IOError ''/tmp/tasks'')"
  "ex_safe_open_read ex_fs ''/tmp/garbage.json'' = Inr Garbage"
  "ex_safe_open_read ex_fs ''/tmp/list.json'' = Inr (JsonText OtherDocument)"
  "ex_safe_open_read ex_fs ''/tmp/unnamed.json'' = Inr (JsonText (TaskDocument [] None))"
  "ex_safe_open_read ex_fs ''/tmp/B.json'' =
     Inr (JsonText (TaskDocument ''B'' (Some [echo_process])))"
  unfolding ex_safe_open_read_def ex_dirname_simps ex_safe_mkdir_tmp
  by (simp_all add: ex_safe_mkdir_def ex_fs_def)

subsection \<open>The ports of a process\<close>

lemma ports_loop_eq:
  "ports_loop L sc refs acc =
     (if list_all (is_index L) (List.map_filter (scoped_to L sc) refs)
      then Inr (acc @ map (action_value L) (List.map_filter (scoped_to L sc) refs))
      else Inl (AssertionError []))"
  by (induction refs arbitrary: acc) (auto simp add: List.map_filter_simps split: option.splits)

text \<open>
  Claim C3, amended. For every process whose interpolation returns, the scanner
  takes the unresolved references in their order and, for each one to which
  \<^verbatim>\<open>scoped_to\<close> of \<^verbatim>\<open>thermos.ports\<close> gives a sub-reference, asserts \<^verbatim>\<open>is_index()\<close> of the
  sub-reference and collects its \<^verbatim>\<open>action().value\<close>, the port name. It returns the
  collected names when \<^verbatim>\<open>is_index()\<close> holds of every such sub-reference; when it fails
  for one, the scanner fails with an AssertionError (without message) and returns
  nothing, neither a partial list nor an empty one. An exception of the
  interpolation is passed on. The scanner checks nothing else about the
  sub-reference: how many components it has is not examined.
\<close>

theorem ThermosProcessWrapper_ports_spec:
  "ThermosProcessWrapper_ports L self =
     (case process_interpolate L (process self) of
        Inl e \<Rightarrow> Inl e
      | Inr (interpolated, uninterp) \<Rightarrow>
          (let subscopes =
                 List.map_filter (scoped_to L (from_address L ''thermos.ports'')) uninterp
           in if list_all (is_index L) subscopes
              then Inr (map (action_value L) subscopes)
              else Inl (AssertionError [])))"
  by (simp add: ThermosProcessWrapper_ports_def ports_loop_eq Let_def split: sum.splits)

text \<open>
  On the instance: the reference \<^verbatim>\<open>thermos.ports.health.sub\<close>, whose sub-reference
  \<^verbatim>\<open>.health.sub\<close> begins with a dereference, fails the assertion; the process \<open>web\<close>,
  which refers to \<^verbatim>\<open>thermos.ports[http]\<close> and to \<^verbatim>\<open>jvm.version\<close>, gives the one name
  \<open>http\<close>; a process without port references gives none.
\<close>

theorem ThermosProcessWrapper_ports_witness:
  "ThermosProcessWrapper_ports ex_pystachio \<lparr>process = health_process\<rparr> = Inl (AssertionError [])
   \<and> ThermosProcessWrapper_ports ex_pystachio \<lparr>process = web_process\<rparr> = Inr [''http'']
   \<and> ThermosProcessWrapper_ports ex_pystachio \<lparr>process = echo_process\<rparr> = Inr []"
  by (simp add: ThermosProcessWrapper_ports_spec ex_fields ex_process_interpolate_def
      ex_from_address_def ex_scoped_to_def ex_is_index_def ex_action_value_def
      health_process_def web_process_def echo_process_def port_def jvm_version_def
      List.map_filter_simps)

text \<open>
  The claim as it was stated, that a sub-reference which is not a single-level index
  access fails the assertion, does not hold: the sub-reference \<^verbatim>\<open>[health].sub\<close> of
  \<^verbatim>\<open>thermos.ports[health].sub\<close> goes on after its index, \<^verbatim>\<open>is_index()\<close> holds of it,
  and the scanner returns the port \<open>health\<close> without a failure.
\<close>

theorem ThermosProcessWrapper_ports_nested_counterexample:
  "ThermosProcessWrapper_ports ex_pystachio \<lparr>process = nested_process\<rparr> = Inr [''health'']"
  by (simp add: ThermosProcessWrapper_ports_def ex_fields ex_process_interpolate_def
      ex_from_address_def ex_scoped_to_def ex_is_index_def ex_action_value_def
      nested_process_def port_def)

subsection \<open>Constructing a task wrapper\<close>

text \<open>
  Claim C1. Let the bound template be the task itself when no bindings are given
  (\<^verbatim>\<open>None\<close> or an empty sequence), and otherwise the result of one call of \<^verbatim>\<open>bind\<close>
  with all bindings in their order. With \<^verbatim>\<open>strict=True\<close> the construction succeeds
  if and only if the bound template passes validation, and the wrapper then holds
  the bound template; when validation fails it raises \<open>InvalidTask\<close> with the
  message of the validator. With \<^verbatim>\<open>strict=False\<close> the construction always succeeds
  and holds the bound template.
\<close>

theorem ThermosTaskWrapper_init_spec:
  "(let bound = (if bindings0 = None \<or> bindings0 = Some [] then task0
                 else bind L task0 (the bindings0))
    in ((\<exists>w. ThermosTaskWrapper_init L task0 bindings0 True = Inr w) \<longleftrightarrow> ok (check L bound))
     \<and> (ok (check L bound) \<longrightarrow>
          ThermosTaskWrapper_init L task0 bindings0 True = Inr \<lparr>task = bound\<rparr>)
     \<and> (\<not> ok (check L bound) \<longrightarrow>
          ThermosTaskWrapper_init L task0 bindings0 True =
            Inl (InvalidTask (message (check L bound))))
     \<and> ThermosTaskWrapper_init L task0 bindings0 False = Inr \<lparr>task = bound\<rparr>)"
  by (auto simp add: ThermosTaskWrapper_init_def Let_def split: option.splits list.splits)

theorem ThermosTaskWrapper_init_witness:
  "ThermosTaskWrapper_init ex_pystachio task_A (Some [jvm_binding]) True =
     Inr \<lparr>task = task_A\<lparr>scopes := [jvm_binding]\<rparr>\<rparr>
   \<and> ThermosTaskWrapper_init ex_pystachio task_unnamed (Some [jvm_binding]) True =
     Inl (InvalidTask ''Task[name] is required'')
   \<and> ThermosTaskWrapper_init ex_pystachio task_unnamed None False = Inr \<lparr>task = task_unnamed\<rparr>"
  using ThermosTaskWrapper_init_spec
      [where L = ex_pystachio and ?task0.0 = task_A and ?bindings0.0 = "Some [jvm_binding]"]
    ThermosTaskWrapper_init_spec
      [where L = ex_pystachio and ?task0.0 = task_unnamed and ?bindings0.0 = "Some [jvm_binding]"]
    ThermosTaskWrapper_init_spec
      [where L = ex_pystachio and ?task0.0 = task_unnamed and ?bindings0.0 = None]
  by (simp add: Let_def ex_pystachio_def ex_bind_def ex_check_def task_A_def task_unnamed_def)

subsection \<open>The ports of a task\<close>

lemma update_ports_ok:
  "\<forall>p \<in> set ps. \<exists>found. ThermosProcessWrapper_ports L \<lparr>process = p\<rparr> = Inr found \<Longrightarrow>
   update_ports L ps acc =
     Inr (acc \<union> (\<Union>p \<in> set ps. set (projr (ThermosProcessWrapper_ports L \<lparr>process = p\<rparr>))))"
proof (induction ps arbitrary: acc)
  case Nil
  then show ?case by simp
next
  case (Cons p ps)
  from Cons.prems obtain found where
    found: "ThermosProcessWrapper_ports L \<lparr>process = p\<rparr> = Inr found"
    by auto
  from Cons.prems have
    rest: "\<forall>q \<in> set ps. \<exists>f. ThermosProcessWrapper_ports L \<lparr>process = q\<rparr> = Inr f"
    by simp
  show ?case
    using Cons.IH [OF rest, of "acc \<union> set found"] found
    by (simp add: Un_assoc)
qed

lemma update_ports_raises:
  "\<exists>p \<in> set ps. \<exists>e. ThermosProcessWrapper_ports L \<lparr>process = p\<rparr> = Inl e \<Longrightarrow>
   \<exists>e. update_ports L ps acc = Inl e"
proof (induction ps arbitrary: acc)
  case Nil
  then show ?case by simp
next
  case (Cons p ps)
  show ?case
  proof (cases "ThermosProcessWrapper_ports L \<lparr>process = p\<rparr>")
    case (Inl e)
    then show ?thesis by simp
  next
    case (Inr found)
    with Cons.prems have
      "\<exists>q \<in> set ps. \<exists>e. ThermosProcessWrapper_ports L \<lparr>process = q\<rparr> = Inl e"
      by auto
    from Cons.IH [OF this, of "acc \<union> set found"] Inr show ?thesis by simp
  qed
qed

text \<open>
  Claim C2. \<open>ports\<close> of a task wrapper interpolates the task, and passes an
  exception of the interpolation on. When the interpolated task declares no
  processes, the result is the empty set. When it has processes and the scanner
  returns for each of them, the result is the union of the sets of names the scanner
  found, so a port referenced by several processes is one element. When the scanner
  raises for a process, \<open>ports\<close> raises.
\<close>

theorem ThermosTaskWrapper_ports_spec:
  "(case interpolate L (task self) of
      Inl e \<Rightarrow> ThermosTaskWrapper_ports L self = Inl e
    | Inr (ti, unresolved) \<Rightarrow>
        (let scan = (\<lambda>p. ThermosProcessWrapper_ports L \<lparr>process = p\<rparr>)
         in (\<not> has_processes L ti \<longrightarrow> ThermosTaskWrapper_ports L self = Inr {})
          \<and> (has_processes L ti \<and> (\<forall>p \<in> set (processes L ti). \<exists>found. scan p = Inr found) \<longrightarrow>
               ThermosTaskWrapper_ports L self =
                 Inr (\<Union>p \<in> set (processes L ti). set (projr (scan p))))
          \<and> (has_processes L ti \<and> (\<exists>p \<in> set (processes L ti). \<exists>e. scan p = Inl e) \<longrightarrow>
               (\<exists>e. ThermosTaskWrapper_ports L self = Inl e))))"
proof (cases "interpolate L (task self)")
  case (Inl e)
  then show ?thesis by (simp add: ThermosTaskWrapper_ports_def)
next
  case (Inr r)
  obtain ti unresolved where r: "r = (ti, unresolved)" by (cases r)
  show ?thesis
    unfolding Inr r Let_def ThermosTaskWrapper_ports_def sum.case prod.case
    using update_ports_ok [of "processes L ti" L "{}"]
      update_ports_raises [of "processes L ti" L "{}"]
    by auto
qed

lemma ex_ports_admin:
  "ThermosProcessWrapper_ports ex_pystachio \<lparr>process = admin_process\<rparr> = Inr [''admin'', ''http'']"
  by (simp add: ThermosProcessWrapper_ports_def ex_fields ex_process_interpolate_def
      ex_from_address_def ex_scoped_to_def ex_is_index_def ex_action_value_def
      admin_process_def port_def)

lemma ex_ports_web_bound:
  "ThermosProcessWrapper_ports ex_pystachio
     \<lparr>process = \<lparr>pname = ''web'',
        cmdline = [Lit ''server --port='', Placeholder (port ''http''),
                   Lit '' --jvm='', Lit ''7'']\<rparr>\<rparr> = Inr [''http'']"
  by (simp add: ThermosProcessWrapper_ports_def ex_fields ex_process_interpolate_def
      ex_from_address_def ex_scoped_to_def ex_is_index_def ex_action_value_def port_def)

lemma ex_interpolate_task_A:
  "ex_interpolate (task_A\<lparr>scopes := [jvm_binding]\<rparr>) =
     Inr (\<lparr>tname = ''A'',
           tprocesses = Some [\<lparr>pname = ''web'',
             cmdline = [Lit ''server --port='', Placeholder (port ''http''),
                        Lit '' --jvm='', Lit ''7'']\<rparr>, admin_process],
           scopes = [jvm_binding]\<rparr>,
          [port ''http'', port ''admin'', port ''http''])"
  by (simp add: ex_interpolate_def ex_resolve_def task_A_def web_process_def admin_process_def
      jvm_binding_def port_def jvm_version_def)

theorem ThermosTaskWrapper_ports_witness:
  "ThermosTaskWrapper_ports ex_pystachio \<lparr>task = task_A\<lparr>scopes := [jvm_binding]\<rparr>\<rparr> =
     Inr {''http'', ''admin''}
   \<and> ThermosTaskWrapper_ports ex_pystachio \<lparr>task = task_unnamed\<rparr> = Inr {}"
proof
  note A = ThermosTaskWrapper_ports_spec
    [where L = ex_pystachio and self = "\<lparr>task = task_A\<lparr>scopes := [jvm_binding]\<rparr>\<rparr>",
     unfolded ex_fields(3) ThermosTaskWrapper.simps ex_interpolate_task_A sum.case prod.case
       Let_def,
     THEN conjunct2, THEN conjunct1]
  have "ThermosTaskWrapper_ports ex_pystachio \<lparr>task = task_A\<lparr>scopes := [jvm_binding]\<rparr>\<rparr> =
          Inr (set [''http''] \<union> set [''admin'', ''http''])"
    using A by (simp add: ex_fields ex_ports_web_bound ex_ports_admin)
  then show "ThermosTaskWrapper_ports ex_pystachio \<lparr>task = task_A\<lparr>scopes := [jvm_binding]\<rparr>\<rparr> =
     Inr {''http'', ''admin''}"
    by (simp add: insert_commute)
next
  note B = ThermosTaskWrapper_ports_spec
    [where L = ex_pystachio and self = "\<lparr>task = task_unnamed\<rparr>"]
  show "ThermosTaskWrapper_ports ex_pystachio \<lparr>task = task_unnamed\<rparr> = Inr {}"
    using B by (simp add: ex_fields ex_interpolate_def task_unnamed_def Let_def)
qed

subsection \<open>Serialization\<close>

text \<open>
  Claim C7. \<open>to_json\<close> of a wrapper constructed from a template gives the JSON text
  of the raw value of that template: nothing is interpolated, and the bindings given
  to the constructor do not show, as long as \<^verbatim>\<open>bind\<close> leaves the raw value that
  \<^verbatim>\<open>get\<close> reads unchanged (it adds a scope for interpolation to consult).
\<close>

theorem to_json_spec:
  "ThermosTaskWrapper_init L task0 bindings0 strict0 = Inr self \<Longrightarrow>
   (\<And>bs. bindings0 = Some bs \<Longrightarrow> get L (bind L task0 bs) = get L task0) \<Longrightarrow>
   to_json L J self = dumps J (get L task0)"
  by (auto simp add: ThermosTaskWrapper_init_def to_json_def Let_def
      split: option.splits list.splits if_splits)

lemma ex_init_task_A:
  "ThermosTaskWrapper_init ex_pystachio task_A (Some [jvm_binding]) True =
     Inr \<lparr>task = task_A\<lparr>scopes := [jvm_binding]\<rparr>\<rparr>"
  by (simp add: ThermosTaskWrapper_init_def ex_fields ex_bind_def ex_check_def task_A_def)

theorem to_json_witness:
  "to_json ex_pystachio ex_json_module \<lparr>task = task_A\<lparr>scopes := [jvm_binding]\<rparr>\<rparr> =
     JsonText (TaskDocument ''A'' (Some [web_process, admin_process]))"
proof -
  have "to_json ex_pystachio ex_json_module \<lparr>task = task_A\<lparr>scopes := [jvm_binding]\<rparr>\<rparr> =
          dumps ex_json_module (get ex_pystachio task_A)"
    by (rule to_json_spec [OF ex_init_task_A]) (simp add: ex_fields ex_bind_def ex_get_def)
  then show ?thesis
    by (simp add: ex_fields ex_json_fields ex_get_def task_A_def)
qed

text \<open>
  Claim C4, amended. \<open>from_file\<close> never raises. It returns \<^verbatim>\<open>None\<close> whenever
  \<^verbatim>\<open>safe_open\<close> or the read raises (the directory part of the path cannot be
  created, as for a bare file name; the path names nothing, or something that cannot
  be opened or read), when the text is not JSON, when the constructor \<open>Task\<close>
  rejects the document, and, with \<^verbatim>\<open>strict=True\<close> (the default), when the task built
  from the document fails validation. When the file is read, the text parsed and the
  task built, and the task passes validation or \<^verbatim>\<open>strict=False\<close> was given, it
  returns a new wrapper of that task with the caller's bindings bound; with
  \<^verbatim>\<open>strict=False\<close> this includes a document that fails validation.
\<close>

theorem from_file_spec:
  "(\<exists>r. from_file L J D fs filename kw0 = Inr r)
   \<and> (case safe_open_read D fs filename of
        Inl e \<Rightarrow> from_file L J D fs filename kw0 = Inr None
      | Inr text \<Rightarrow>
          (case loads J text of
             Inl e \<Rightarrow> from_file L J D fs filename kw0 = Inr None
           | Inr js \<Rightarrow>
               (case Task L js of
                  Inl e \<Rightarrow> from_file L J D fs filename kw0 = Inr None
                | Inr t \<Rightarrow>
                    (let bound = (if bindings kw0 = None \<or> bindings kw0 = Some [] then t
                                  else bind L t (the (bindings kw0)))
                     in from_file L J D fs filename kw0 =
                          (if strict kw0 \<and> \<not> ok (check L bound) then Inr None
                           else Inr (Some \<lparr>task = bound\<rparr>))))))"
  by (auto simp add: from_file_def from_file_try_def ThermosTaskWrapper_init_def
      Let_def split: option.splits list.splits sum.splits)

text \<open>
  On the instance: a bare file name, whose directory part \<^verbatim>\<open>safe_open\<close> cannot
  create, a missing file, a directory, a file that is not JSON, a JSON document
  that is not a task and, under the default \<^verbatim>\<open>strict=True\<close>, the document of the task
  without a name all give \<^verbatim>\<open>None\<close>; the document of the task \<open>B\<close> gives a wrapper.
\<close>

theorem from_file_witness:
  "from_file ex_pystachio ex_json_module ex_dirutil ex_fs ''unnamed.json'' default_kw = Inr None
   \<and> from_file ex_pystachio ex_json_module ex_dirutil ex_fs ''/tmp/missing.json'' default_kw =
       Inr None
   \<and> from_file ex_pystachio ex_json_module ex_dirutil ex_fs ''/tmp/tasks'' default_kw = Inr None
   \<and> from_file ex_pystachio ex_json_module ex_dirutil ex_fs ''/tmp/garbage.json'' default_kw =
       Inr None
   \<and> from_file ex_pystachio ex_json_module ex_dirutil ex_fs ''/tmp/list.json'' default_kw =
       Inr None
   \<and> from_file ex_pystachio ex_json_module ex_dirutil ex_fs ''/tmp/unnamed.json'' default_kw =
       Inr None
   \<and> from_file ex_pystachio ex_json_module ex_dirutil ex_fs ''/tmp/B.json'' default_kw =
       Inr (Some \<lparr>task = task_B\<rparr>)"
  using from_file_spec [where L = ex_pystachio and J = ex_json_module and D = ex_dirutil
      and fs = ex_fs and filename = "''unnamed.json''" and ?kw0.0 = default_kw]
    from_file_spec [where L = ex_pystachio and J = ex_json_module and D = ex_dirutil
      and fs = ex_fs and filename = "''/tmp/missing.json''" and ?kw0.0 = default_kw]
    from_file_spec [where L = ex_pystachio and J = ex_json_module and D = ex_dirutil
      and fs = ex_fs and filename = "''/tmp/tasks''" and ?kw0.0 = default_kw]
    from_file_spec [where L = ex_pystachio and J = ex_json_module and D = ex_dirutil
      and fs = ex_fs and filename = "''/tmp/garbage.json''" and ?kw0.0 = default_kw]
    from_file_spec [where L = ex_pystachio and J = ex_json_module and D = ex_dirutil
      and fs = ex_fs and filename = "''/tmp/list.json''" and ?kw0.0 = default_kw]
    from_file_spec [where L = ex_pystachio and J = ex_json_module and D = ex_dirutil
      and fs = ex_fs and filename = "''/tmp/unnamed.json''" and ?kw0.0 = default_kw]
    from_file_spec [where L = ex_pystachio and J = ex_json_module and D = ex_dirutil
      and fs = ex_fs and filename = "''/tmp/B.json''" and ?kw0.0 = default_kw]
  by (simp add: ex_dirutil_fields ex_reads ex_json_fields ex_fields ex_Task_def ex_check_def
      default_kw_def task_B_def)

text \<open>
  The claim as it was stated, that a document failing validation always gives
  \<^verbatim>\<open>None\<close>, fails for \<^verbatim>\<open>strict=False\<close>: the document \<^verbatim>\<open>/tmp/unnamed.json\<close> of the task
  without a name is read and parsed, the task fails validation, and it is returned
  in a wrapper.
\<close>

theorem from_file_not_strict_counterexample:
  "from_file ex_pystachio ex_json_module ex_dirutil ex_fs ''/tmp/unnamed.json''
     \<lparr>bindings = None, strict = False\<rparr> = Inr (Some \<lparr>task = task_unnamed\<rparr>)
   \<and> \<not> ok (check ex_pystachio task_unnamed)"
  by (simp add: from_file_def from_file_try_def ThermosTaskWrapper_init_def
      ex_dirutil_fields ex_reads ex_json_fields ex_fields ex_Task_def ex_check_def
      task_unnamed_def)

text \<open>
  Claim C5. A task is fully bound when its interpolation returns and leaves no
  reference unresolved. Let the JSON codec read back every document that \<^verbatim>\<open>get\<close>
  produces, let the schema rebuild, from the interpolated value of a valid and
  fully bound task, a task that is valid and interpolates to the same value, and
  let \<^verbatim>\<open>safe_open\<close> read back from the path what it wrote there. Then for every
  wrapper of a valid, fully bound task: when \<open>to_file\<close> has written it, \<open>from_file\<close>
  on the written file returns a wrapper, and the interpolated JSON value of that
  wrapper equals the one of the original.
\<close>

theorem to_file_from_file_round_trip:
  assumes codec: "\<And>t. loads J (dumps J (get L t)) = Inr (get L t)"
    and schema: "\<And>t ti. ok (check L t) \<Longrightarrow> interpolate L t = Inr (ti, []) \<Longrightarrow>
       \<exists>t' ti' u'. Task L (get L ti) = Inr t' \<and> ok (check L t')
          \<and> interpolate L t' = Inr (ti', u') \<and> get L ti' = get L ti"
    and read_back: "\<And>text. safe_open_write D fs filename text = Inr fs' \<Longrightarrow>
       safe_open_read D fs' filename = Inr text"
    and valid: "ok (check L (task self))"
    and fully_bound: "interpolate L (task self) = Inr (ti, [])"
    and written: "to_file L J D self filename fs = Inr fs'"
  shows "\<exists>self' ti' u'. from_file L J D fs' filename default_kw = Inr (Some self')
     \<and> interpolate L (task self') = Inr (ti', u')
     \<and> get L ti' = get L ti"
proof -
  from written fully_bound have
    "safe_open_write D fs filename (dumps J (get L ti)) = Inr fs'"
    by (simp add: to_file_def)
  then have read: "safe_open_read D fs' filename = Inr (dumps J (get L ti))"
    by (rule read_back)
  from schema [OF valid fully_bound] obtain t' ti' u' where
    t': "Task L (get L ti) = Inr t'" "ok (check L t')"
      "interpolate L t' = Inr (ti', u')" "get L ti' = get L ti"
    by blast
  have "from_file L J D fs' filename default_kw = Inr (Some \<lparr>task = t'\<rparr>)"
    using t' codec [of ti] read
    by (simp add: from_file_def from_file_try_def default_kw_def ThermosTaskWrapper_init_def)
  with t'(3,4) show ?thesis
    by auto
qed

lemma ex_resolve_empty: "ex_resolve [] = id"
proof
  fix p show "ex_resolve [] p = id p"
    by (cases p) (simp_all add: ex_resolve_def)
qed

lemma ex_interpolate_unbound:
  "scopes t = [] \<Longrightarrow> \<exists>u. ex_interpolate t = Inr (t, u)"
proof -
  assume "scopes t = []"
  moreover have "(\<lambda>p::ex_process. p\<lparr>cmdline := map (ex_resolve []) (cmdline p)\<rparr>) = (\<lambda>p. p)"
    by (simp add: ex_resolve_empty)
  ultimately show ?thesis
    by (simp add: ex_interpolate_def Let_def option.map_ident)
qed

lemma ex_schema_round_trip:
  "ok (check ex_pystachio t) \<Longrightarrow> interpolate ex_pystachio t = Inr (ti, []) \<Longrightarrow>
   \<exists>t' ti' u'. Task ex_pystachio (get ex_pystachio ti) = Inr t' \<and> ok (check ex_pystachio t')
      \<and> interpolate ex_pystachio t' = Inr (ti', u') \<and> get ex_pystachio ti' = get ex_pystachio ti"
proof -
  assume valid: "ok (check ex_pystachio t)" and ti: "interpolate ex_pystachio t = Inr (ti, [])"
  let ?t' = "\<lparr>tname = tname ti, tprocesses = tprocesses ti, scopes = []\<rparr>"
  from ti have "tname ti = tname t"
    by (auto simp add: ex_fields ex_interpolate_def Let_def)
  with valid have "ok (check ex_pystachio ?t')"
    by (simp add: ex_fields ex_check_def split: if_splits)
  moreover have "Task ex_pystachio (get ex_pystachio ti) = Inr ?t'"
    by (simp add: ex_fields ex_Task_def ex_get_def)
  moreover obtain u' where "interpolate ex_pystachio ?t' = Inr (?t', u')"
    using ex_interpolate_unbound [of ?t'] by (auto simp add: ex_fields)
  moreover have "get ex_pystachio ?t' = get ex_pystachio ti"
    by (simp add: ex_fields ex_get_def)
  ultimately show ?thesis by blast
qed

lemma ex_interpolate_task_B:
  "interpolate ex_pystachio (task_B\<lparr>scopes := [jvm_binding]\<rparr>) =
     Inr (\<lparr>tname = ''B'',
           tprocesses = Some [\<lparr>pname = ''echo'', cmdline = [Lit ''echo java '', Lit ''7'']\<rparr>],
           scopes = [jvm_binding]\<rparr>, [])"
  by (simp add: ex_fields ex_interpolate_def ex_resolve_def task_B_def echo_process_def
      jvm_binding_def jvm_version_def)

lemma ex_safe_mkdir_thermos:
  "ex_safe_mkdir ex_fs ''/tmp/thermos'' = Inr (ex_fs(''/tmp/thermos'' \<mapsto> Directory))"
  "ex_safe_mkdir (ex_fs(''/tmp/thermos'' \<mapsto> Directory, ''/tmp/thermos/B.json'' \<mapsto> Regular text))
     ''/tmp/thermos'' =
   Inr (ex_fs(''/tmp/thermos'' \<mapsto> Directory, ''/tmp/thermos/B.json'' \<mapsto> Regular text))"
  by (simp_all add: ex_safe_mkdir_def ex_ancestors_simps ex_fs_def)

lemma ex_write_B:
  "ex_safe_open_write ex_fs ''/tmp/thermos/B.json'' text =
     Inr (ex_fs(''/tmp/thermos'' \<mapsto> Directory, ''/tmp/thermos/B.json'' \<mapsto> Regular text))"
  unfolding ex_safe_open_write_def ex_dirname_simps ex_safe_mkdir_thermos
  by (simp add: ex_fs_def)

lemma ex_read_B:
  "ex_safe_open_read
     (ex_fs(''/tmp/thermos'' \<mapsto> Directory, ''/tmp/thermos/B.json'' \<mapsto> Regular text))
     ''/tmp/thermos/B.json'' = Inr text"
  unfolding ex_safe_open_read_def ex_dirname_simps ex_safe_mkdir_thermos
  by simp

text \<open>
  On the instance: the task \<open>B\<close> with \<^verbatim>\<open>jvm.version\<close> bound is written to
  \<^verbatim>\<open>/tmp/thermos/B.json\<close>, which creates the directory \<^verbatim>\<open>/tmp/thermos\<close>; the wrapper read
  back holds the interpolated command line, not the placeholder, and interpolates to
  the same value.
\<close>

theorem to_file_from_file_round_trip_witness:
  "to_file ex_pystachio ex_json_module ex_dirutil \<lparr>task = task_B\<lparr>scopes := [jvm_binding]\<rparr>\<rparr>
     ''/tmp/thermos/B.json'' ex_fs =
     Inr (ex_fs(''/tmp/thermos'' \<mapsto> Directory,
                ''/tmp/thermos/B.json'' \<mapsto> Regular (JsonText (TaskDocument ''B''
                   (Some [\<lparr>pname = ''echo'', cmdline = [Lit ''echo java '', Lit ''7'']\<rparr>])))))
   \<and> (\<exists>self' ti' u'.
         from_file ex_pystachio ex_json_module ex_dirutil
           (ex_fs(''/tmp/thermos'' \<mapsto> Directory,
                  ''/tmp/thermos/B.json'' \<mapsto> Regular (JsonText (TaskDocument ''B''
                     (Some [\<lparr>pname = ''echo'', cmdline = [Lit ''echo java '', Lit ''7'']\<rparr>])))))
           ''/tmp/thermos/B.json'' default_kw = Inr (Some self')
         \<and> interpolate ex_pystachio (task self') = Inr (ti', u')
         \<and> get ex_pystachio ti' =
             get ex_pystachio
               \<lparr>tname = ''B'',
                tprocesses =
                  Some [\<lparr>pname = ''echo'', cmdline = [Lit ''echo java '', Lit ''7'']\<rparr>],
                scopes = [jvm_binding]\<rparr>)"
proof
  let ?doc = "JsonText (TaskDocument ''B''
    (Some [\<lparr>pname = ''echo'', cmdline = [Lit ''echo java '', Lit ''7'']\<rparr>]))"
  let ?fs' = "ex_fs(''/tmp/thermos'' \<mapsto> Directory, ''/tmp/thermos/B.json'' \<mapsto> Regular ?doc)"
  let ?self = "\<lparr>task = task_B\<lparr>scopes := [jvm_binding]\<rparr>\<rparr>"
  show written: "to_file ex_pystachio ex_json_module ex_dirutil ?self ''/tmp/thermos/B.json'' ex_fs =
      Inr ?fs'"
    by (simp add: to_file_def ex_interpolate_task_B ex_dirutil_fields ex_write_B ex_json_fields
        ex_fields(6) ex_get_def)
  show "\<exists>self' ti' u'.
      from_file ex_pystachio ex_json_module ex_dirutil ?fs' ''/tmp/thermos/B.json'' default_kw =
        Inr (Some self')
      \<and> interpolate ex_pystachio (task self') = Inr (ti', u')
      \<and> get ex_pystachio ti' =
          get ex_pystachio
            \<lparr>tname = ''B'',
             tprocesses = Some [\<lparr>pname = ''echo'', cmdline = [Lit ''echo java '', Lit ''7'']\<rparr>],
             scopes = [jvm_binding]\<rparr>"
  proof (rule to_file_from_file_round_trip [where self = ?self and fs = ex_fs])
    show "loads ex_json_module (dumps ex_json_module (get ex_pystachio t)) =
            Inr (get ex_pystachio t)" for t
      by (simp add: ex_json_fields)
    show "\<exists>t' ti' u'. Task ex_pystachio (get ex_pystachio ti) = Inr t'
            \<and> ok (check ex_pystachio t') \<and> interpolate ex_pystachio t' = Inr (ti', u')
            \<and> get ex_pystachio ti' = get ex_pystachio ti"
      if "ok (check ex_pystachio t)" "interpolate ex_pystachio t = Inr (ti, [])" for t ti
      using that by (rule ex_schema_round_trip)
    show "safe_open_read ex_dirutil ?fs' ''/tmp/thermos/B.json'' = Inr body"
      if "safe_open_write ex_dirutil ex_fs ''/tmp/thermos/B.json'' body = Inr ?fs'" for body
    proof -
      from that have
        "(ex_fs(''/tmp/thermos'' \<mapsto> Directory, ''/tmp/thermos/B.json'' \<mapsto> Regular body))
           ''/tmp/thermos/B.json'' = ?fs' ''/tmp/thermos/B.json''"
        by (simp add: ex_dirutil_fields ex_write_B)
      then have "body = ?doc" by simp
      then show ?thesis by (simp add: ex_dirutil_fields ex_read_B)
    qed
    show "ok (check ex_pystachio (task ?self))"
      by (simp add: ex_fields ex_check_def task_B_def)
    show "interpolate ex_pystachio (task ?self) =
        Inr (\<lparr>tname = ''B'',
              tprocesses = Some [\<lparr>pname = ''echo'', cmdline = [Lit ''echo java '', Lit ''7'']\<rparr>],
              scopes = [jvm_binding]\<rparr>, [])"
      by (simp add: ex_interpolate_task_B)
    show "to_file ex_pystachio ex_json_module ex_dirutil ?self ''/tmp/thermos/B.json'' ex_fs =
        Inr ?fs'"
      by (rule written)
  qed
qed

subsection \<open>Loading a JSON document\<close>

text \<open>
  Claim C9. \<open>load_json\<close> always returns a loader, and the task list of that loader
  has exactly one entry, the result of \<open>from_file\<close>: a wrapper, or the \<^verbatim>\<open>None\<close> that
  \<open>from_file\<close> returns when reading, parsing or validation failed.
\<close>

theorem load_json_spec:
  "\<exists>tc r. load_json L J D fs filename kw0 = Inr tc \<and> from_file L J D fs filename kw0 = Inr r
     \<and> tasks tc = [r]"
  by (simp add: load_json_def from_file_def tasks_def add_task_def ThermosConfigLoader_init_def
      split: sum.splits)

theorem load_json_witness:
  "load_json ex_pystachio ex_json_module ex_dirutil ex_fs ''/tmp/unnamed.json'' default_kw =
     Inr \<lparr>exported_tasks = [None]\<rparr>
   \<and> load_json ex_pystachio ex_json_module ex_dirutil ex_fs ''/tmp/B.json'' default_kw =
     Inr \<lparr>exported_tasks = [Some \<lparr>task = task_B\<rparr>]\<rparr>"
proof -
  have failed: "from_file ex_pystachio ex_json_module ex_dirutil ex_fs ''/tmp/unnamed.json''
      default_kw = Inr None"
    by (simp add: from_file_def from_file_try_def ThermosTaskWrapper_init_def
        ex_dirutil_fields ex_reads ex_json_fields ex_fields ex_Task_def ex_check_def
        default_kw_def)
  have read: "from_file ex_pystachio ex_json_module ex_dirutil ex_fs ''/tmp/B.json''
      default_kw = Inr (Some \<lparr>task = task_B\<rparr>)"
    by (simp add: from_file_def from_file_try_def ThermosTaskWrapper_init_def
        ex_dirutil_fields ex_reads ex_json_fields ex_fields ex_Task_def ex_check_def
        default_kw_def task_B_def)
  from load_json_spec [of ex_pystachio ex_json_module ex_dirutil ex_fs "''/tmp/unnamed.json''"
      default_kw]
    load_json_spec [of ex_pystachio ex_json_module ex_dirutil ex_fs "''/tmp/B.json''" default_kw]
  show ?thesis
    unfolding failed read by (auto simp add: tasks_def)
qed

subsection \<open>Loading a configuration script\<close>

lemma exec_function_returns:
  "exec_function L kw0 steps env (tc, h) = (None, tc', h') \<Longrightarrow>
   \<exists>ws. exported_tasks tc' = exported_tasks tc @ map Some ws
      \<and> map (\<lambda>t. ThermosTaskWrapper_init L t (bindings kw0) (strict kw0)) (exported steps) =
          map Inr ws"
proof (induction steps arbitrary: tc h)
  case Nil
  then show ?case by simp
next
  case (Cons s steps)
  show ?case
  proof (cases s)
    case (Export t)
    show ?thesis
    proof (cases "ThermosTaskWrapper_init L t (bindings kw0) (strict kw0)")
      case (Inl e)
      with Cons.prems Export show ?thesis by (simp add: export_def)
    next
      case (Inr w)
      with Cons.prems Export have
        "exec_function L kw0 steps env (add_task tc (Some w), h) = (None, tc', h')"
        by (simp add: export_def)
      from Cons.IH [OF this] obtain ws where
        "exported_tasks tc' = exported_tasks (add_task tc (Some w)) @ map Some ws"
        "map (\<lambda>t. ThermosTaskWrapper_init L t (bindings kw0) (strict kw0)) (exported steps) =
           map Inr ws"
        by blast
      then have "exported_tasks tc' = exported_tasks tc @ map Some (w # ws)
        \<and> map (\<lambda>t. ThermosTaskWrapper_init L t (bindings kw0) (strict kw0))
            (exported (s # steps)) = map Inr (w # ws)"
        using Export Inr by (simp add: add_task_def)
      then show ?thesis by blast
    qed
  next
    case (Assign k v)
    with Cons.prems have
      "exec_function L kw0 steps env (tc, setitem h env k v) = (None, tc', h')"
      by simp
    from Cons.IH [OF this] Assign show ?thesis by simp
  next
    case (Raise e)
    with Cons.prems show ?thesis by simp
  qed
qed

lemma exec_function_runs:
  "\<forall>e. Raise e \<notin> set steps \<Longrightarrow>
   map (\<lambda>t. ThermosTaskWrapper_init L t (bindings kw0) (strict kw0)) (exported steps) =
     map Inr ws \<Longrightarrow>
   \<exists>h'. exec_function L kw0 steps env (tc, h) =
          (None, tc\<lparr>exported_tasks := exported_tasks tc @ map Some ws\<rparr>, h')"
proof (induction steps arbitrary: tc h ws)
  case Nil
  then show ?case by simp
next
  case (Cons s steps)
  from Cons.prems(1) have noraise: "\<forall>e. Raise e \<notin> set steps" by simp
  show ?case
  proof (cases s)
    case (Export t)
    with Cons.prems(2) obtain w ws' where ws: "ws = w # ws'"
      and w: "ThermosTaskWrapper_init L t (bindings kw0) (strict kw0) = Inr w"
      and rest: "map (\<lambda>t. ThermosTaskWrapper_init L t (bindings kw0) (strict kw0))
                   (exported steps) = map Inr ws'"
      by (cases ws) auto
    from Cons.IH [OF noraise rest, of "add_task tc (Some w)" h] Export w ws
    show ?thesis by (simp add: export_def add_task_def)
  next
    case (Assign k v)
    with Cons.prems(2) have
      "map (\<lambda>t. ThermosTaskWrapper_init L t (bindings kw0) (strict kw0)) (exported steps) =
         map Inr ws"
      by simp
    from Cons.IH [OF noraise this, of tc "setitem h env k v"] Assign show ?thesis by simp
  next
    case (Raise e)
    with Cons.prems(1) show ?thesis by auto
  qed
qed

lemma exec_function_frame:
  "exec_function L kw0 steps env (tc, h) = (r, tc', h') \<Longrightarrow>
   length h' = length h \<and> (\<forall>a. a \<noteq> env \<longrightarrow> h' ! a = h ! a)"
proof (induction steps arbitrary: tc h)
  case Nil
  then show ?case by simp
next
  case (Cons s steps)
  show ?case
  proof (cases s)
    case (Export t)
    with Cons.prems Cons.IH show ?thesis
      by (cases "export L kw0 tc t") auto
  next
    case (Assign k v)
    with Cons.prems have "exec_function L kw0 steps env (tc, setitem h env k v) = (r, tc', h')"
      by simp
    from Cons.IH [OF this] show ?thesis by (simp add: setitem_def)
  next
    case (Raise e)
    with Cons.prems show ?thesis by simp
  qed
qed

lemma exec_function_store_independent:
  "fst (exec_function L kw0 steps env (tc, h)) = fst (exec_function L kw0 steps env' (tc, h'))
   \<and> fst (snd (exec_function L kw0 steps env (tc, h))) =
       fst (snd (exec_function L kw0 steps env' (tc, h')))"
proof (induction steps arbitrary: tc h h')
  case Nil
  then show ?case by simp
next
  case (Cons s steps)
  show ?case
  proof (cases s)
    case (Export t)
    with Cons.IH show ?thesis by (cases "export L kw0 tc t") auto
  next
    case (Assign k v)
    with Cons.IH [of tc "setitem h env k v" "setitem h' env' k v"] show ?thesis by simp
  next
    case (Raise e)
    then show ?thesis by simp
  qed
qed

lemma load_unfold:
  "load L compile_file h filename kw0 =
     (case compile_file filename of
        Inl e \<Rightarrow> (Inl e, h @ [(h ! SCHEMA)(''export'' \<mapsto> ExportFunction)])
      | Inr code \<Rightarrow>
          (case exec_function L kw0 (code ((h ! SCHEMA)(''export'' \<mapsto> ExportFunction))) (length h)
                  (ThermosConfigLoader_init,
                   h @ [(h ! SCHEMA)(''export'' \<mapsto> ExportFunction)]) of
             (Some e, tc', h') \<Rightarrow> (Inl e, h')
           | (None, tc', h') \<Rightarrow> (Inr tc', h')))"
  by (simp only: load_def copy_copy_def Let_def prod.case setitem_def nth_append_length
      list_update_length)

lemma load_result:
  "fst (load L compile_file h filename kw0) =
     (case compile_file filename of
        Inl e \<Rightarrow> Inl e
      | Inr code \<Rightarrow>
          (let x = exec_function L kw0 (code ((h ! SCHEMA)(''export'' \<mapsto> ExportFunction)))
                     (length h)
                     (ThermosConfigLoader_init,
                      h @ [(h ! SCHEMA)(''export'' \<mapsto> ExportFunction)])
           in case fst x of Some e \<Rightarrow> Inl e | None \<Rightarrow> Inr (fst (snd x))))"
  by (simp add: load_unfold Let_def split: sum.splits prod.splits option.splits)

lemma class_store_SCHEMA:
  "SCHEMA < length (class_store preamble)"
  "class_store preamble ! SCHEMA = map_option Vocabulary \<circ> preamble"
  by (simp_all add: class_store_def deposit_schema_def SCHEMA_def)

lemma config_py_steps:
  "config_py ((class_store ex_preamble ! SCHEMA)(''export'' \<mapsto> ExportFunction)) =
     [Export task_A, Assign ''Task'' (Vocabulary ''shadowed''),
      Assign ''export'' (Vocabulary ''shadowed''), Export task_B]"
  by (simp add: class_store_SCHEMA config_py_def ex_preamble_def)

lemma ex_init_default:
  "ThermosTaskWrapper_init ex_pystachio task_A (bindings default_kw) (strict default_kw) =
     Inr \<lparr>task = task_A\<rparr>"
  "ThermosTaskWrapper_init ex_pystachio task_B (bindings default_kw) (strict default_kw) =
     Inr \<lparr>task = task_B\<rparr>"
  by (simp_all add: ThermosTaskWrapper_init_def default_kw_def ex_fields ex_check_def
      task_A_def task_B_def)

text \<open>
  Claim C6. Let the steps of the script be those it takes in the dictionary that
  \<open>load\<close> prepares, the items of \<^verbatim>\<open>SCHEMA\<close> with \<^verbatim>\<open>export\<close> added. When \<open>load\<close>
  returns a loader, its \<open>tasks\<close> are exactly the wrappers of the tasks passed to
  \<^verbatim>\<open>export\<close>, one for each call and in the order of the calls, each constructed
  with the caller's bindings and strictness. And \<open>load\<close> does return such a loader
  when the script raises nothing and each of these constructions succeeds.
\<close>

theorem load_tasks_spec:
  assumes "compile_file filename = Inr code"
  shows "(let steps = code ((h ! SCHEMA)(''export'' \<mapsto> ExportFunction));
              wrap = (\<lambda>t. ThermosTaskWrapper_init L t (bindings kw0) (strict kw0))
          in (\<forall>tc. fst (load L compile_file h filename kw0) = Inr tc \<longrightarrow>
                (\<exists>ws. tasks tc = map Some ws \<and> map wrap (exported steps) = map Inr ws))
           \<and> (\<forall>ws. (\<forall>e. Raise e \<notin> set steps) \<and> map wrap (exported steps) = map Inr ws \<longrightarrow>
                (\<exists>tc. fst (load L compile_file h filename kw0) = Inr tc
                   \<and> tasks tc = map Some ws)))"
proof -
  define steps where "steps = code ((h ! SCHEMA)(''export'' \<mapsto> ExportFunction))"
  define h2 where
    "h2 = h @ [(h ! SCHEMA)(''export'' \<mapsto> ExportFunction)]"
  define wrap where "wrap = (\<lambda>t. ThermosTaskWrapper_init L t (bindings kw0) (strict kw0))"
  have load_eq: "fst (load L compile_file h filename kw0) =
      (case exec_function L kw0 steps (length h) (ThermosConfigLoader_init, h2) of
         (Some e, tc', h') \<Rightarrow> Inl e | (None, tc', h') \<Rightarrow> Inr tc')"
    using assms
    by (simp add: load_unfold steps_def h2_def split: prod.splits option.splits)
  have returns: "\<exists>ws. tasks tc = map Some ws \<and> map wrap (exported steps) = map Inr ws"
    if "fst (load L compile_file h filename kw0) = Inr tc" for tc
  proof -
    from that obtain h' where
      "exec_function L kw0 steps (length h) (ThermosConfigLoader_init, h2) = (None, tc, h')"
      unfolding load_eq by (auto split: prod.splits option.splits)
    from exec_function_returns [OF this] show ?thesis
      by (simp add: tasks_def ThermosConfigLoader_init_def wrap_def)
  qed
  have runs: "\<exists>tc. fst (load L compile_file h filename kw0) = Inr tc \<and> tasks tc = map Some ws"
    if "\<forall>e. Raise e \<notin> set steps" "map wrap (exported steps) = map Inr ws" for ws
  proof -
    from exec_function_runs [OF that(1) that(2) [unfolded wrap_def],
        of "length h" ThermosConfigLoader_init h2]
    show ?thesis
      unfolding load_eq
      by (auto simp add: tasks_def ThermosConfigLoader_init_def)
  qed
  from returns runs show ?thesis
    unfolding Let_def steps_def [symmetric] wrap_def [symmetric] by blast
qed

theorem load_tasks_witness:
  "\<exists>tc. fst (load ex_pystachio ex_compile_file (class_store ex_preamble) ''config.py'' default_kw)
          = Inr tc
     \<and> tasks tc = [Some \<lparr>task = task_A\<rparr>, Some \<lparr>task = task_B\<rparr>]"
proof -
  have compiled: "ex_compile_file ''config.py'' = Inr config_py"
    by (simp add: ex_compile_file_def)
  note runs = load_tasks_spec [where compile_file = ex_compile_file
      and filename = "''config.py''" and code = config_py and h = "class_store ex_preamble"
      and L = ex_pystachio and ?kw0.0 = default_kw, OF compiled, unfolded Let_def config_py_steps,
      THEN conjunct2, rule_format, of "[\<lparr>task = task_A\<rparr>, \<lparr>task = task_B\<rparr>]"]
  show ?thesis
    using runs by (simp add: ex_init_default)
qed

text \<open>
  Claim C8. \<open>load\<close> evaluates the script in a new dictionary, a copy of \<^verbatim>\<open>SCHEMA\<close>, so
  whatever the script binds, and the binding of \<^verbatim>\<open>export\<close> itself, reach the copy:
  every object that the store held before the call, \<^verbatim>\<open>SCHEMA\<close> among them, is the
  same after it, whether the call returns or raises. Hence what a later call of
  \<open>load\<close> returns or raises is what it would have been without the earlier call.
\<close>

theorem load_leaves_SCHEMA:
  assumes "SCHEMA < length h"
  shows "(\<forall>a < length h. snd (load L compile_file h filename kw0) ! a = h ! a)
     \<and> fst (load L compile_file' (snd (load L compile_file h filename kw0)) filename' kw0') =
         fst (load L compile_file' h filename' kw0')"
proof -
  define h2 where
    "h2 = h @ [(h ! SCHEMA)(''export'' \<mapsto> ExportFunction)]"
  have h2: "length h2 = Suc (length h)" "\<And>a. a < length h \<Longrightarrow> h2 ! a = h ! a"
    by (simp_all add: h2_def nth_append)
  have frame: "length (snd (load L compile_file h filename kw0)) = Suc (length h)
      \<and> (\<forall>a < length h. snd (load L compile_file h filename kw0) ! a = h ! a)"
  proof (cases "compile_file filename")
    case (Inl e)
    then show ?thesis using h2 by (simp add: load_unfold h2_def [symmetric])
  next
    case (Inr code)
    obtain r tc' h' where run:
      "exec_function L kw0 (code ((h ! SCHEMA)(''export'' \<mapsto> ExportFunction))) (length h)
         (ThermosConfigLoader_init, h2) = (r, tc', h')"
      by (metis prod_cases3)
    from exec_function_frame [OF run] h2 have
      "length h' = Suc (length h)" "\<forall>a < length h. h' ! a = h ! a"
      by auto
    moreover have "snd (load L compile_file h filename kw0) = h'"
      using Inr run by (simp add: load_unfold h2_def [symmetric] split: option.splits)
    ultimately show ?thesis by simp
  qed
  define g where "g = snd (load L compile_file h filename kw0)"
  from frame assms have same: "g ! SCHEMA = h ! SCHEMA"
    by (simp add: g_def)
  have "fst (load L compile_file' g filename' kw0') = fst (load L compile_file' h filename' kw0')"
  proof (cases "compile_file' filename'")
    case (Inl e)
    then show ?thesis by (simp add: load_unfold)
  next
    case (Inr code)
    let ?ns = "(h ! SCHEMA)(''export'' \<mapsto> ExportFunction)"
    let ?X = "exec_function L kw0' (code ?ns) (length g) (ThermosConfigLoader_init, g @ [?ns])"
    let ?Y = "exec_function L kw0' (code ?ns) (length h) (ThermosConfigLoader_init, h @ [?ns])"
    from exec_function_store_independent
      [of L kw0' "code ?ns" "length g" ThermosConfigLoader_init "g @ [?ns]" "length h" "h @ [?ns]"]
    have e1: "fst ?X = fst ?Y" and e2: "fst (snd ?X) = fst (snd ?Y)"
      by simp_all
    show ?thesis
      unfolding load_result Inr same sum.case Let_def e1 e2 ..
  qed
  with frame show ?thesis by (simp add: g_def)
qed

lemma ex_load_store:
  "snd (load ex_pystachio ex_compile_file (class_store ex_preamble) ''config.py'' default_kw) =
     setitem
       (setitem
          (class_store ex_preamble @
             [(class_store ex_preamble ! SCHEMA)(''export'' \<mapsto> ExportFunction)])
          (length (class_store ex_preamble :: string store)) ''Task'' (Vocabulary ''shadowed''))
       (length (class_store ex_preamble :: string store)) ''export'' (Vocabulary ''shadowed'')"
  by (simp add: load_unfold ex_compile_file_def config_py_steps export_def ex_init_default)

lemma ex_load_namespace:
  "(snd (load ex_pystachio ex_compile_file (class_store ex_preamble) ''config.py'' default_kw)
      ! Suc SCHEMA) ''Task'' = Some (Vocabulary ''shadowed'')"
  unfolding ex_load_store
  by (simp add: setitem_def class_store_def deposit_schema_def SCHEMA_def)

text \<open>
  On the instance: after the script has rebound \<open>Task\<close> and \<open>export\<close>, the new
  dictionary holds the new binding of \<open>Task\<close>, while \<^verbatim>\<open>SCHEMA\<close> still binds \<open>Task\<close> to
  the class and does not bind \<open>export\<close>; the script, which needs that class, gives
  the same result when it is loaded again.
\<close>

theorem load_leaves_SCHEMA_witness:
  "(snd (load ex_pystachio ex_compile_file (class_store ex_preamble) ''config.py'' default_kw)
      ! SCHEMA) ''Task'' = Some (Vocabulary ''class Task'')
   \<and> (snd (load ex_pystachio ex_compile_file (class_store ex_preamble) ''config.py'' default_kw)
      ! SCHEMA) ''export'' = None
   \<and> (snd (load ex_pystachio ex_compile_file (class_store ex_preamble) ''config.py'' default_kw)
      ! Suc SCHEMA) ''Task'' = Some (Vocabulary ''shadowed'')
   \<and> fst (load ex_pystachio ex_compile_file
        (snd (load ex_pystachio ex_compile_file (class_store ex_preamble) ''config.py'' default_kw))
        ''config.py'' default_kw) =
     fst (load ex_pystachio ex_compile_file (class_store ex_preamble) ''config.py'' default_kw)"
proof -
  note frame = load_leaves_SCHEMA [where h = "class_store ex_preamble"
      and L = ex_pystachio and compile_file = ex_compile_file and filename = "''config.py''"
      and ?kw0.0 = default_kw and compile_file' = ex_compile_file
      and filename' = "''config.py''" and kw0' = default_kw, OF class_store_SCHEMA(1)]
  from frame class_store_SCHEMA(1) [of ex_preamble] have
    "snd (load ex_pystachio ex_compile_file (class_store ex_preamble) ''config.py'' default_kw)
       ! SCHEMA = class_store ex_preamble ! SCHEMA"
    by blast
  then have schema: "snd (load ex_pystachio ex_compile_file (class_store ex_preamble) ''config.py''
      default_kw) ! SCHEMA = map_option Vocabulary \<circ> ex_preamble"
    by (simp add: class_store_SCHEMA)
  have "(map_option Vocabulary \<circ> ex_preamble) ''Task'' = Some (Vocabulary ''class Task'')"
    "(map_option Vocabulary \<circ> ex_preamble) ''export'' = None"
    by (simp_all add: ex_preamble_def)
  with frame [THEN conjunct2] ex_load_namespace show ?thesis
    unfolding schema by simp
qed

end
